theory Spec2Isabelle
  imports Main
begin

section \<open>The command \<open>gcloud sql instances delete\<close>\<close>

text \<open>
  A shallow embedding of \<open>Delete.Run\<close> in
  \<^verbatim>\<open>lib/surface/sql/instances/delete.py\<close>. The command is glue code over external
  collaborators (the name validator, the resource parser, the generated REST client, the
  console prompt, the operation waiter and the logger). Each collaborator is a field of
  the record \<open>env\<close>: a function from the arguments of the call to either the exception
  it raises (\<open>Inl\<close>) or the value it returns (\<open>Inr\<close>). \<open>Run\<close> returns the list of
  observable events (calls and log lines, in program order) together with either the
  exception that leaves \<open>Run\<close> or the value it returns.

  Each collaborator is called at most once in a run, so a function of the arguments
  loses nothing. A collaborator that does not return (a waiter that polls forever) is
  outside the model. The construction of the client object in lines 71 to 73 and the
  two logging calls are taken not to raise; the former is no event of the trace.
\<close>

subsection \<open>Exceptions\<close>

text \<open>
  The two handlers of \<open>Run\<close> are \<^verbatim>\<open>except exceptions.HttpError\<close>: they tell an
  \<open>HttpError\<close> (or a subclass) from every other exception. Each exception carries the
  text that \<^verbatim>\<open>six.text_type\<close> renders for it.
\<close>

datatype exn = HttpError string | OtherError string

fun text_type_exn :: "exn \<Rightarrow> string" where
  "text_type_exn (HttpError m) = m"
| "text_type_exn (OtherError m) = m"

fun is_HttpError :: "exn \<Rightarrow> bool" where
  "is_HttpError (HttpError m) = True"
| "is_HttpError (OtherError m) = False"

subsection \<open>Resources, messages and arguments\<close>

text \<open>
  \<open>instance_ref\<close> and \<open>operation_ref\<close> are the resource references the parser builds
  (\<^verbatim>\<open>instance_ref.project\<close>, \<^verbatim>\<open>instance_ref.instance\<close>, \<^verbatim>\<open>operation_ref.project\<close>,
  \<^verbatim>\<open>operation_ref.operation\<close>). The request messages take their fields in the order the
  source writes them.
\<close>

record instance_ref =
  ref_project :: string
  ref_instance :: string

record operation_ref =
  op_project :: string
  op_operation :: string

datatype SqlInstancesGetRequest =
  SqlInstancesGetRequest (get_project: string) (get_instance: string)

datatype SqlOperationsGetRequest =
  SqlOperationsGetRequest (opget_project: string) (opget_operation: string)

record SqlInstancesDeleteRequest =
  del_instance :: string
  del_project :: string
  enableFinalBackup :: bool
  finalBackupTtlDays :: "int option"
  finalBackupDescription :: "string option"
  finalBackupExpiryTime :: "string option"

text \<open>
  An unset message field reads as \<^verbatim>\<open>None\<close>: \<open>settings\<close> and \<open>retainBackupsOnDelete\<close>
  are optional.
\<close>

record Settings =
  retainBackupsOnDelete :: "bool option"

record DatabaseInstance =
  settings :: "Settings option"

record Operation =
  name :: string
  status :: string

text \<open>
  A \<^verbatim>\<open>datetime.datetime\<close>: its wall-clock fields, and the offset of its \<^verbatim>\<open>tzinfo\<close> from
  UTC in microseconds (\<open>None\<close> for a naive datetime).
\<close>

record datetime =
  year :: nat
  month :: nat
  day :: nat
  hour :: nat
  minute :: nat
  second :: nat
  microsecond :: nat
  utcoffset :: "int option"

definition valid_datetime :: "datetime \<Rightarrow> bool" where
  "valid_datetime d =
     (1 \<le> year d \<and> year d \<le> 9999 \<and> 1 \<le> month d \<and> month d \<le> 12 \<and>
      1 \<le> day d \<and> day d \<le> 31 \<and> hour d < 24 \<and> minute d < 60 \<and> second d < 60 \<and>
      microsecond d < 1000000)"

record args =
  args_instance :: string
  enable_final_backup :: bool
  final_backup_description :: "string option"
  final_backup_expiry_time :: "datetime option"
  final_backup_retention_days :: "int option"
  async :: bool

subsection \<open>Collaborators and events\<close>

record env =
  ValidateInstanceName :: "string \<Rightarrow> exn + unit"
  Parse :: "string \<Rightarrow> exn + instance_ref"
  instances_Get :: "SqlInstancesGetRequest \<Rightarrow> exn + DatabaseInstance"
  PromptContinue :: "string \<Rightarrow> exn + bool"
  instances_Delete :: "SqlInstancesDeleteRequest \<Rightarrow> exn + Operation"
  Create :: "string \<Rightarrow> string \<Rightarrow> exn + operation_ref"
  operations_Get :: "SqlOperationsGetRequest \<Rightarrow> exn + Operation"
  WaitForOperation :: "operation_ref \<Rightarrow> string \<Rightarrow> exn + unit"
  text_type_ref :: "operation_ref \<Rightarrow> string"

datatype event =
    ValidateInstanceNameCall string
  | ParseCall string
  | InstancesGetCall SqlInstancesGetRequest
  | LogDebug string string
  | PromptContinueCall string
  | InstancesDeleteCall SqlInstancesDeleteRequest
  | CreateCall string string
  | OperationsGetCall SqlOperationsGetRequest
  | WaitForOperationCall operation_ref string
  | LogDeletedResource instance_ref

text \<open>The events that are requests to the remote service.\<close>

fun is_remote :: "event \<Rightarrow> bool" where
  "is_remote (InstancesGetCall r) = True"
| "is_remote (InstancesDeleteCall r) = True"
| "is_remote (OperationsGetCall r) = True"
| "is_remote (WaitForOperationCall r m) = True"
| "is_remote e = False"

fun is_delete :: "event \<Rightarrow> bool" where
  "is_delete (InstancesDeleteCall r) = True"
| "is_delete e = False"

fun is_prompt :: "event \<Rightarrow> bool" where
  "is_prompt (PromptContinueCall p) = True"
| "is_prompt e = False"

fun is_operations_get :: "event \<Rightarrow> bool" where
  "is_operations_get (OperationsGetCall r) = True"
| "is_operations_get e = False"

fun is_wait :: "event \<Rightarrow> bool" where
  "is_wait (WaitForOperationCall r m) = True"
| "is_wait e = False"

subsection \<open>\<^verbatim>\<open>strftime\<close>\<close>

text \<open>
  The directives the format string of the source uses: \<^verbatim>\<open>%Y\<close> is the year in
  decimal, which CPython on glibc does not pad (the year 999 gives \<^verbatim>\<open>999\<close>, so four
  digits need a year from 1000 on), \<^verbatim>\<open>%m %d %H %M %S\<close> are padded with zeros to two
  digits, \<^verbatim>\<open>%f\<close> is the microsecond padded to six. Every other character is copied.
  \<^verbatim>\<open>strftime\<close> reads the wall-clock fields only: it converts between no time zones.
\<close>

definition is_digit :: "char \<Rightarrow> bool" where
  "is_digit c = (c \<in> set ''0123456789'')"

definition digit :: "nat \<Rightarrow> char" where
  "digit n = ''0123456789'' ! n"

function digits :: "nat \<Rightarrow> string" where
  "digits n = (if n < 10 then [digit n] else digits (n div 10) @ [digit (n mod 10)])"
  by pat_completeness auto
termination
  by (relation "measure id") auto

declare digits.simps [simp del]

definition zfill :: "nat \<Rightarrow> string \<Rightarrow> string" where
  "zfill w s = replicate (w - length s) (CHR ''0'') @ s"

definition directive :: "datetime \<Rightarrow> char \<Rightarrow> string" where
  "directive d c =
     (if c = CHR ''Y'' then digits (year d)
      else if c = CHR ''m'' then zfill 2 (digits (month d))
      else if c = CHR ''d'' then zfill 2 (digits (day d))
      else if c = CHR ''H'' then zfill 2 (digits (hour d))
      else if c = CHR ''M'' then zfill 2 (digits (minute d))
      else if c = CHR ''S'' then zfill 2 (digits (second d))
      else if c = CHR ''f'' then zfill 6 (digits (microsecond d))
      else if c = CHR ''%'' then ''%''
      else [CHR ''%'', c])"

fun strftime :: "datetime \<Rightarrow> string \<Rightarrow> string" where
  "strftime d [] = []"
| "strftime d [c] = [c]"
| "strftime d (c # c' # cs) =
     (if c = CHR ''%'' then directive d c' @ strftime d cs
      else c # strftime d (c' # cs))"

subsection \<open>\<open>Delete.Run\<close>\<close>

text \<open>Lines 83 to 97: the fetch of the instance, where an \<open>HttpError\<close> is logged and dropped.\<close>

definition fetch_instance ::
  "env \<Rightarrow> instance_ref \<Rightarrow> event list \<times> (exn + DatabaseInstance option)" where
  "fetch_instance env instance_ref =
     (let req = SqlInstancesGetRequest (ref_project instance_ref) (ref_instance instance_ref)
      in case instances_Get env req of
           Inr instance_resource \<Rightarrow> ([InstancesGetCall req], Inr (Some instance_resource))
         | Inl error \<Rightarrow>
             if is_HttpError error
             then ([InstancesGetCall req,
                    LogDebug ''Ignoring the error to get instance resource : %s''
                      (text_type_exn error)],
                   Inr None)
             else ([InstancesGetCall req], Inl error))"

text \<open>
  Lines 99 to 113: the wording of the prompt. Reading \<^verbatim>\<open>.retainBackupsOnDelete\<close> of an
  unset \<open>settings\<close> raises \<^verbatim>\<open>AttributeError\<close>.
\<close>

definition prompt_retained :: string where
  "prompt_retained =
     ''All of the instance data will be lost except the existing backups'' @
     '' when the instance is deleted.''"

definition prompt_default :: string where
  "prompt_default = ''All of the instance data will be lost when the instance is deleted.''"

definition choose_prompt :: "DatabaseInstance option \<Rightarrow> exn + string" where
  "choose_prompt instance_resource =
     (case instance_resource of
        None \<Rightarrow> Inr prompt_default
      | Some r \<Rightarrow>
          (case settings r of
             None \<Rightarrow> Inl (OtherError ''AttributeError'')
           | Some s \<Rightarrow>
               if retainBackupsOnDelete s = Some True then Inr prompt_retained
               else Inr prompt_default))"

text \<open>Lines 118 to 130: the retention days and the expiry time of the request.\<close>

definition retention_days :: "args \<Rightarrow> int option" where
  "retention_days args =
     (case final_backup_retention_days args of
        None \<Rightarrow> None
      | Some n \<Rightarrow> if n > 0 then Some n else None)"

definition expiry_time :: "args \<Rightarrow> string option" where
  "expiry_time args =
     (case final_backup_expiry_time args of
        None \<Rightarrow> None
      | Some t \<Rightarrow> Some (strftime t ''%Y-%m-%dT%H:%M:%S.%fZ''))"

definition delete_request :: "args \<Rightarrow> instance_ref \<Rightarrow> SqlInstancesDeleteRequest" where
  "delete_request args instance_ref =
     \<lparr>del_instance = ref_instance instance_ref,
      del_project = ref_project instance_ref,
      enableFinalBackup = enable_final_backup args,
      finalBackupTtlDays = retention_days args,
      finalBackupDescription = final_backup_description args,
      finalBackupExpiryTime = expiry_time args\<rparr>"

text \<open>
  Lines 133 to 156: the body of the \<^verbatim>\<open>try\<close>. It returns its events, the value of the
  variable \<^verbatim>\<open>operation_ref\<close> when control leaves it (\<open>None\<close> until line 144 has assigned
  it), and its outcome. The sync path falls off the end of \<open>Run\<close>, which returns \<^verbatim>\<open>None\<close>.
\<close>

definition try_body ::
  "env \<Rightarrow> args \<Rightarrow> instance_ref \<Rightarrow>
     event list \<times> operation_ref option \<times> (exn + Operation option)" where
  "try_body env args instance_ref =
     (let req = delete_request args instance_ref;
          t1 = [InstancesDeleteCall req]
      in case instances_Delete env req of
           Inl e \<Rightarrow> (t1, None, Inl e)
         | Inr result \<Rightarrow>
     (let t2 = t1 @ [CreateCall (name result) (ref_project instance_ref)]
      in case Create env (name result) (ref_project instance_ref) of
           Inl e \<Rightarrow> (t2, None, Inl e)
         | Inr operation_ref \<Rightarrow>
     if async args then
       (let get = SqlOperationsGetRequest (op_project operation_ref) (op_operation operation_ref);
            t3 = t2 @ [OperationsGetCall get]
        in case operations_Get env get of
             Inl e \<Rightarrow> (t3, Some operation_ref, Inl e)
           | Inr snapshot \<Rightarrow> (t3, Some operation_ref, Inr (Some snapshot)))
     else
       (let t3 = t2 @ [WaitForOperationCall operation_ref ''Deleting Cloud SQL instance'']
        in case WaitForOperation env operation_ref ''Deleting Cloud SQL instance'' of
             Inl e \<Rightarrow> (t3, Some operation_ref, Inl e)
           | Inr _ \<Rightarrow> (t3 @ [LogDeletedResource instance_ref], Some operation_ref, Inr None))))"

text \<open>Lines 158 to 160: the handler logs \<^verbatim>\<open>operation_ref\<close> and raises the exception again.\<close>

definition text_type_operation_ref :: "env \<Rightarrow> operation_ref option \<Rightarrow> string" where
  "text_type_operation_ref env operation_ref =
     (case operation_ref of None \<Rightarrow> ''None'' | Some r \<Rightarrow> text_type_ref env r)"

definition try_delete ::
  "env \<Rightarrow> args \<Rightarrow> instance_ref \<Rightarrow> event list \<times> (exn + Operation option)" where
  "try_delete env args instance_ref =
     (case try_body env args instance_ref of
        (t, operation_ref, Inl e) \<Rightarrow>
          if is_HttpError e
          then (t @ [LogDebug ''operation : %s'' (text_type_operation_ref env operation_ref)],
                Inl e)
          else (t, Inl e)
      | (t, operation_ref, Inr r) \<Rightarrow> (t, Inr r))"

text \<open>The whole of \<open>Run\<close>, lines 71 to 160.\<close>

definition Run :: "env \<Rightarrow> args \<Rightarrow> event list \<times> (exn + Operation option)" where
  "Run env args =
     (let t1 = [ValidateInstanceNameCall (args_instance args)]
      in case ValidateInstanceName env (args_instance args) of
           Inl e \<Rightarrow> (t1, Inl e)
         | Inr _ \<Rightarrow>
     (let t2 = t1 @ [ParseCall (args_instance args)]
      in case Parse env (args_instance args) of
           Inl e \<Rightarrow> (t2, Inl e)
         | Inr instance_ref \<Rightarrow>
     (case fetch_instance env instance_ref of
        (tf, Inl e) \<Rightarrow> (t2 @ tf, Inl e)
      | (tf, Inr instance_resource) \<Rightarrow>
     (let t3 = t2 @ tf
      in case choose_prompt instance_resource of
           Inl e \<Rightarrow> (t3, Inl e)
         | Inr prompt \<Rightarrow>
     (let t4 = t3 @ [PromptContinueCall prompt]
      in case PromptContinue env prompt of
           Inl e \<Rightarrow> (t4, Inl e)
         | Inr continue \<Rightarrow>
     if \<not> continue then (t4, Inr None)
     else
       (case try_delete env args instance_ref of
          (td, r) \<Rightarrow> (t4 @ td, r)))))))"

subsection \<open>A concrete environment\<close>

text \<open>
  The service of the examples: every name is valid, the project is \<open>p1\<close>, the instance
  retains its backups, the user accepts, the delete returns the operation \<open>op-1\<close>.
\<close>

definition demo_env :: env where
  "demo_env =
     \<lparr>ValidateInstanceName = (\<lambda>n. Inr ()),
      Parse = (\<lambda>n. Inr \<lparr>ref_project = ''p1'', ref_instance = n\<rparr>),
      instances_Get = (\<lambda>r. Inr \<lparr>settings = Some \<lparr>retainBackupsOnDelete = Some True\<rparr>\<rparr>),
      PromptContinue = (\<lambda>p. Inr True),
      instances_Delete = (\<lambda>r. Inr \<lparr>name = ''op-1'', status = ''PENDING''\<rparr>),
      Create = (\<lambda>n p. Inr \<lparr>op_project = p, op_operation = n\<rparr>),
      operations_Get = (\<lambda>r. Inr \<lparr>name = opget_operation r, status = ''RUNNING''\<rparr>),
      WaitForOperation = (\<lambda>r m. Inr ()),
      text_type_ref = (\<lambda>r. op_project r @ ''/'' @ op_operation r)\<rparr>"

definition demo_args :: args where
  "demo_args =
     \<lparr>args_instance = ''db1'',
      enable_final_backup = False,
      final_backup_description = None,
      final_backup_expiry_time = None,
      final_backup_retention_days = None,
      async = False\<rparr>"

definition demo_request :: SqlInstancesDeleteRequest where
  "demo_request =
     \<lparr>del_instance = ''db1'', del_project = ''p1'', enableFinalBackup = False,
      finalBackupTtlDays = None, finalBackupDescription = None,
      finalBackupExpiryTime = None\<rparr>"

text \<open>The same service with a user who declines.\<close>

definition decline_env :: env where
  "decline_env = demo_env\<lparr>PromptContinue := (\<lambda>p. Inr False)\<rparr>"

text \<open>
  Three more services: one whose fetch fails outside HTTP (no connection), one whose
  fetch is refused with an HTTP error, and one whose validator rejects every name.
\<close>

definition offline_env :: env where
  "offline_env = demo_env\<lparr>instances_Get := (\<lambda>r. Inl (OtherError ''ConnectionError''))\<rparr>"

definition forbidden_env :: env where
  "forbidden_env = demo_env\<lparr>instances_Get := (\<lambda>r. Inl (HttpError ''HttpError 403''))\<rparr>"

definition bad_name_env :: env where
  "bad_name_env = demo_env\<lparr>ValidateInstanceName := (\<lambda>n. Inl (OtherError ''ArgumentError''))\<rparr>"



definition demo_operation_ref :: operation_ref where
  "demo_operation_ref = \<lparr>op_project = ''p1'', op_operation = ''op-1''\<rparr>"

definition async_args :: args where
  "async_args = demo_args\<lparr>async := True\<rparr>"

definition delete_fails_env :: env where
  "delete_fails_env = demo_env\<lparr>instances_Delete := (\<lambda>r. Inl (HttpError ''HttpError 409''))\<rparr>"

definition create_fails_env :: env where
  "create_fails_env = demo_env\<lparr>Create := (\<lambda>n p. Inl (HttpError ''HttpError 400''))\<rparr>"

definition poll_fails_env :: env where
  "poll_fails_env =
     demo_env\<lparr>operations_Get := (\<lambda>r. Inl (HttpError ''HttpError 503'')),
              WaitForOperation := (\<lambda>r m. Inl (HttpError ''HttpError 500''))\<rparr>"

text \<open>
  Midnight of 1 January 2025 on a clock five hours ahead of UTC (in UTC that instant is
  19:00 on 31 December 2024), the same wall-clock reading on a UTC clock, and the
  arguments with an expiry time.
\<close>

definition new_year_plus5 :: datetime where
  "new_year_plus5 =
     \<lparr>year = 2025, month = 1, day = 1, hour = 0, minute = 0, second = 0, microsecond = 0,
      utcoffset = Some 18000000000\<rparr>"

definition new_year_utc :: datetime where
  "new_year_utc = new_year_plus5\<lparr>utcoffset := Some 0\<rparr>"

definition expiry_args :: "datetime \<Rightarrow> args" where
  "expiry_args t = demo_args\<lparr>final_backup_expiry_time := Some t\<rparr>"

section \<open>Properties\<close>

subsection \<open>The output of \<^verbatim>\<open>strftime\<close>\<close>

lemma strftime_new_year:
  "strftime new_year_plus5 ''%Y-%m-%dT%H:%M:%S.%fZ'' = ''2025-01-01T00:00:00.000000Z''"
  by code_simp

lemma strftime_ignores_offset:
  "strftime (d\<lparr>utcoffset := z\<rparr>) fmt = strftime d fmt"
  by (induction d fmt rule: strftime.induct) (simp_all add: directive_def)

lemma digit_is_digit: "n < 10 \<Longrightarrow> is_digit (digit n)"
  by (simp add: digit_def is_digit_def del: set_simps)

lemma digits_all: "list_all is_digit (digits n)"
proof (induction n rule: digits.induct)
  case (1 n)
  show ?case
  proof (cases "n < 10")
    case True
    then show ?thesis by (simp add: digits.simps [of n] digit_is_digit)
  next
    case False
    with 1 show ?thesis
      by (simp add: digits.simps [of n] digit_is_digit)
  qed
qed

lemma digits_length: "0 < w \<Longrightarrow> n < 10 ^ w \<Longrightarrow> length (digits n) \<le> w"
proof (induction n arbitrary: w rule: digits.induct)
  case (1 n)
  show ?case
  proof (cases "n < 10")
    case True
    with 1(2) show ?thesis by (simp add: digits.simps [of n])
  next
    case False
    obtain v where w: "w = Suc v" using 1(2) by (cases w) auto
    have v: "0 < v" using False 1(3) w by (cases v) auto
    have "n div 10 < 10 ^ v" using 1(3) w
      by (simp add: less_mult_imp_div_less mult.commute)
    from 1(1) [OF False v this] show ?thesis
      using False w by (simp add: digits.simps [of n])
  qed
qed

lemma digits_length_ge: "10 ^ w \<le> n \<Longrightarrow> w < length (digits n)"
proof (induction n arbitrary: w rule: digits.induct)
  case (1 n)
  show ?case
  proof (cases w)
    case 0
    then show ?thesis by (cases "n < 10") (simp_all add: digits.simps [of n])
  next
    case (Suc v)
    with 1(2) have big: "\<not> n < 10"
      by (cases v) (simp_all add: le_trans [OF _ "1"(2)] not_less)
    have "10 ^ v \<le> n div 10"
      using 1(2) Suc by (simp add: less_eq_div_iff_mult_less_eq mult.commute)
    from 1(1) [OF big this] show ?thesis
      using big Suc by (simp add: digits.simps [of n])
  qed
qed

lemma year_shape:
  "1000 \<le> n \<Longrightarrow> n \<le> 9999 \<Longrightarrow> length (digits n) = 4 \<and> list_all is_digit (digits n)"
  using digits_length [of 4 n] digits_length_ge [of 3 n] by (simp add: digits_all)

lemma zfill_length: "length s \<le> w \<Longrightarrow> length (zfill w s) = w"
  by (simp add: zfill_def)

lemma zfill_all:
  assumes "list_all is_digit s"
  shows "list_all is_digit (zfill w s)"
proof -
  have "is_digit (CHR ''0'')"
    by (simp add: is_digit_def)
  then have "list_all is_digit (replicate k (CHR ''0''))" for k
    by (induction k) simp_all
  with assms show ?thesis
    by (simp add: zfill_def)
qed

lemma field_shape:
  "0 < w \<Longrightarrow> n < 10 ^ w \<Longrightarrow>
     length (zfill w (digits n)) = w \<and> list_all is_digit (zfill w (digits n))"
  by (simp add: zfill_length digits_length zfill_all digits_all)

lemma strftime_format:
  "strftime d ''%Y-%m-%dT%H:%M:%S.%fZ'' =
     digits (year d) @ ''-'' @ zfill 2 (digits (month d)) @ ''-'' @
     zfill 2 (digits (day d)) @ ''T'' @ zfill 2 (digits (hour d)) @ '':'' @
     zfill 2 (digits (minute d)) @ '':'' @ zfill 2 (digits (second d)) @ ''.'' @
     zfill 6 (digits (microsecond d)) @ ''Z''"
  by (simp add: directive_def)

text \<open>
  For a datetime whose fields are in range and whose year is 1000 or later, the format
  of the source gives four digits, a dash, two digits, a dash, two digits, \<open>T\<close>, three
  groups of two digits between colons, a dot, six digits and \<open>Z\<close>.
\<close>

lemma strftime_shape:
  assumes "valid_datetime d" and "1000 \<le> year d"
  shows "\<exists>Y m dd H M S f.
     strftime d ''%Y-%m-%dT%H:%M:%S.%fZ'' =
       Y @ ''-'' @ m @ ''-'' @ dd @ ''T'' @ H @ '':'' @ M @ '':'' @ S @ ''.'' @ f @ ''Z'' \<and>
     length Y = 4 \<and> length m = 2 \<and> length dd = 2 \<and> length H = 2 \<and> length M = 2 \<and>
     length S = 2 \<and> length f = 6 \<and> list_all is_digit (Y @ m @ dd @ H @ M @ S @ f)"
proof -
  have "length (digits (year d)) = 4 \<and> list_all is_digit (digits (year d))"
    using assms by (intro year_shape) (simp_all add: valid_datetime_def)
  moreover have "length (zfill 2 (digits (month d))) = 2 \<and> list_all is_digit (zfill 2 (digits (month d)))"
    using assms by (intro field_shape) (simp_all add: valid_datetime_def)
  moreover have "length (zfill 2 (digits (day d))) = 2 \<and> list_all is_digit (zfill 2 (digits (day d)))"
    using assms by (intro field_shape) (simp_all add: valid_datetime_def)
  moreover have "length (zfill 2 (digits (hour d))) = 2 \<and> list_all is_digit (zfill 2 (digits (hour d)))"
    using assms by (intro field_shape) (simp_all add: valid_datetime_def)
  moreover have "length (zfill 2 (digits (minute d))) = 2 \<and> list_all is_digit (zfill 2 (digits (minute d)))"
    using assms by (intro field_shape) (simp_all add: valid_datetime_def)
  moreover have "length (zfill 2 (digits (second d))) = 2 \<and> list_all is_digit (zfill 2 (digits (second d)))"
    using assms by (intro field_shape) (simp_all add: valid_datetime_def)
  moreover have "length (zfill 6 (digits (microsecond d))) = 6 \<and> list_all is_digit (zfill 6 (digits (microsecond d)))"
    using assms by (intro field_shape) (simp_all add: valid_datetime_def)
  ultimately show ?thesis
    unfolding strftime_format by (intro exI conjI) (rule refl, simp_all)
qed

subsection \<open>Runs of the examples\<close>

lemmas Run_defs = Run_def fetch_instance_def choose_prompt_def

lemmas delete_defs = try_delete_def try_body_def delete_request_def retention_days_def
  expiry_time_def text_type_operation_ref_def

lemma demo_run_sync:
  "Run demo_env demo_args =
     ([ValidateInstanceNameCall ''db1'',
       ParseCall ''db1'',
       InstancesGetCall (SqlInstancesGetRequest ''p1'' ''db1''),
       PromptContinueCall prompt_retained,
       InstancesDeleteCall demo_request,
       CreateCall ''op-1'' ''p1'',
       WaitForOperationCall \<lparr>op_project = ''p1'', op_operation = ''op-1''\<rparr>
         ''Deleting Cloud SQL instance'',
       LogDeletedResource \<lparr>ref_project = ''p1'', ref_instance = ''db1''\<rparr>],
      Inr None)"
  by (simp add: Run_defs delete_defs demo_env_def demo_args_def demo_request_def)

lemma decline_run:
  "Run decline_env demo_args =
     ([ValidateInstanceNameCall ''db1'',
       ParseCall ''db1'',
       InstancesGetCall (SqlInstancesGetRequest ''p1'' ''db1''),
       PromptContinueCall prompt_retained],
      Inr None)"
  by (simp add: Run_defs decline_env_def demo_env_def demo_args_def)

lemma bad_name_run:
  "Run bad_name_env demo_args = ([ValidateInstanceNameCall ''db1''], Inl (OtherError ''ArgumentError''))"
  by (simp add: Run_defs bad_name_env_def demo_env_def demo_args_def)

lemma offline_run:
  "Run offline_env demo_args =
     ([ValidateInstanceNameCall ''db1'', ParseCall ''db1'',
       InstancesGetCall (SqlInstancesGetRequest ''p1'' ''db1'')],
      Inl (OtherError ''ConnectionError''))"
  by (simp add: Run_defs offline_env_def demo_env_def demo_args_def)

lemma forbidden_run:
  "Run forbidden_env demo_args =
     ([ValidateInstanceNameCall ''db1'', ParseCall ''db1'',
       InstancesGetCall (SqlInstancesGetRequest ''p1'' ''db1''),
       LogDebug ''Ignoring the error to get instance resource : %s'' ''HttpError 403'',
       PromptContinueCall prompt_default,
       InstancesDeleteCall demo_request,
       CreateCall ''op-1'' ''p1'',
       WaitForOperationCall \<lparr>op_project = ''p1'', op_operation = ''op-1''\<rparr>
         ''Deleting Cloud SQL instance'',
       LogDeletedResource \<lparr>ref_project = ''p1'', ref_instance = ''db1''\<rparr>],
      Inr None)"
  by (simp add: Run_defs delete_defs forbidden_env_def demo_env_def demo_args_def demo_request_def)



lemma retention_run:
  "InstancesDeleteCall (demo_request\<lparr>finalBackupTtlDays := (if n > 0 then Some n else None)\<rparr>)
     \<in> set (fst (Run demo_env (demo_args\<lparr>final_backup_retention_days := Some n\<rparr>)))"
  by (simp add: Run_defs delete_defs demo_env_def demo_args_def demo_request_def)

lemma demo_run_async:
  "Run demo_env async_args =
     ([ValidateInstanceNameCall ''db1'',
       ParseCall ''db1'',
       InstancesGetCall (SqlInstancesGetRequest ''p1'' ''db1''),
       PromptContinueCall prompt_retained,
       InstancesDeleteCall demo_request,
       CreateCall ''op-1'' ''p1'',
       OperationsGetCall (SqlOperationsGetRequest ''p1'' ''op-1'')],
      Inr (Some \<lparr>name = ''op-1'', status = ''RUNNING''\<rparr>))"
  by (simp add: Run_defs delete_defs demo_env_def demo_args_def async_args_def demo_request_def)

lemma poll_fails_run_sync:
  "Run poll_fails_env demo_args =
     ([ValidateInstanceNameCall ''db1'',
       ParseCall ''db1'',
       InstancesGetCall (SqlInstancesGetRequest ''p1'' ''db1''),
       PromptContinueCall prompt_retained,
       InstancesDeleteCall demo_request,
       CreateCall ''op-1'' ''p1'',
       WaitForOperationCall demo_operation_ref ''Deleting Cloud SQL instance'',
       LogDebug ''operation : %s'' ''p1/op-1''],
      Inl (HttpError ''HttpError 500''))"
  by (simp add: Run_defs delete_defs poll_fails_env_def demo_env_def demo_args_def
      demo_request_def demo_operation_ref_def)

lemma poll_fails_run_async:
  "Run poll_fails_env async_args =
     ([ValidateInstanceNameCall ''db1'',
       ParseCall ''db1'',
       InstancesGetCall (SqlInstancesGetRequest ''p1'' ''db1''),
       PromptContinueCall prompt_retained,
       InstancesDeleteCall demo_request,
       CreateCall ''op-1'' ''p1'',
       OperationsGetCall (SqlOperationsGetRequest ''p1'' ''op-1''),
       LogDebug ''operation : %s'' ''p1/op-1''],
      Inl (HttpError ''HttpError 503''))"
  by (simp add: Run_defs delete_defs poll_fails_env_def demo_env_def demo_args_def
      async_args_def demo_request_def)

lemma delete_fails_run:
  "Run delete_fails_env demo_args =
     ([ValidateInstanceNameCall ''db1'',
       ParseCall ''db1'',
       InstancesGetCall (SqlInstancesGetRequest ''p1'' ''db1''),
       PromptContinueCall prompt_retained,
       InstancesDeleteCall demo_request,
       LogDebug ''operation : %s'' ''None''],
      Inl (HttpError ''HttpError 409''))"
  by (simp add: Run_defs delete_defs delete_fails_env_def demo_env_def demo_args_def
      demo_request_def)

lemma create_fails_run:
  "Run create_fails_env demo_args =
     ([ValidateInstanceNameCall ''db1'',
       ParseCall ''db1'',
       InstancesGetCall (SqlInstancesGetRequest ''p1'' ''db1''),
       PromptContinueCall prompt_retained,
       InstancesDeleteCall demo_request,
       CreateCall ''op-1'' ''p1'',
       LogDebug ''operation : %s'' ''None''],
      Inl (HttpError ''HttpError 400''))"
  by (simp add: Run_defs delete_defs create_fails_env_def demo_env_def demo_args_def
      demo_request_def)

lemma expiry_run:
  "Run demo_env (expiry_args t) =
     ([ValidateInstanceNameCall ''db1'',
       ParseCall ''db1'',
       InstancesGetCall (SqlInstancesGetRequest ''p1'' ''db1''),
       PromptContinueCall prompt_retained,
       InstancesDeleteCall
         (demo_request\<lparr>finalBackupExpiryTime := Some (strftime t ''%Y-%m-%dT%H:%M:%S.%fZ'')\<rparr>),
       CreateCall ''op-1'' ''p1'',
       WaitForOperationCall \<lparr>op_project = ''p1'', op_operation = ''op-1''\<rparr>
         ''Deleting Cloud SQL instance'',
       LogDeletedResource \<lparr>ref_project = ''p1'', ref_instance = ''db1''\<rparr>],
      Inr None)"
  by (simp add: Run_defs delete_defs demo_env_def demo_args_def expiry_args_def demo_request_def
      del: strftime.simps)

subsection \<open>The shape of a trace\<close>

lemma filter_none: "\<not> list_ex P xs \<Longrightarrow> filter P xs = []"
  by (simp add: list_ex_iff filter_empty_conv)


lemma not_delete_mem: "\<not> list_ex is_delete xs \<Longrightarrow> InstancesDeleteCall q \<notin> set xs"
  by (auto simp: list_ex_iff)

lemma not_prompt_mem: "\<not> list_ex is_prompt xs \<Longrightarrow> PromptContinueCall q \<notin> set xs"
  by (auto simp: list_ex_iff)

text \<open>The \<^verbatim>\<open>try\<close> block starts with the one delete request it issues, and never prompts.\<close>

lemma try_body_trace:
  "\<exists>rest. fst (try_body env args r) = InstancesDeleteCall (delete_request args r) # rest
     \<and> \<not> list_ex is_delete rest \<and> \<not> list_ex is_prompt rest"
  by (auto simp: try_body_def Let_def split: sum.splits)

lemma try_delete_trace:
  "\<exists>rest. fst (try_delete env args r) = InstancesDeleteCall (delete_request args r) # rest
     \<and> \<not> list_ex is_delete rest \<and> \<not> list_ex is_prompt rest"
  using try_body_trace [of env args r]
  by (auto simp: try_delete_def split: prod.splits sum.splits)

lemma try_delete_mem:
  "try_delete env args r = (t, res) \<Longrightarrow> InstancesDeleteCall q \<in> set t \<Longrightarrow>
     q = delete_request args r"
  using try_delete_trace [of env args r] by (auto dest: not_delete_mem)

lemma try_delete_no_prompt:
  "try_delete env args r = (t, res) \<Longrightarrow> PromptContinueCall q \<notin> set t"
  using try_delete_trace [of env args r] by (auto dest: not_prompt_mem)

text \<open>
  A run whose trace holds a delete request has validated the name, parsed the reference,
  shown one prompt, seen it accepted, and then entered the \<^verbatim>\<open>try\<close> block.
\<close>

lemma Run_reaches_delete:
  assumes "InstancesDeleteCall req \<in> set (fst (Run env args))"
  shows "\<exists>r pre p. Parse env (args_instance args) = Inr r \<and> req = delete_request args r
      \<and> ValidateInstanceName env (args_instance args) = Inr ()
      \<and> PromptContinue env p = Inr True
      \<and> \<not> list_ex is_delete pre \<and> \<not> list_ex is_prompt pre
      \<and> \<not> list_ex is_operations_get pre \<and> \<not> list_ex is_wait pre
      \<and> (\<forall>i. LogDeletedResource i \<notin> set pre)
      \<and> Run env args = (pre @ PromptContinueCall p # fst (try_delete env args r),
            snd (try_delete env args r))"
  using assms
  by (auto simp: Run_defs Let_def dest: try_delete_mem
      split: sum.splits prod.splits if_splits option.splits)

text \<open>A run whose trace holds a prompt, by the answer to the prompt.\<close>

lemma Run_reaches_prompt:
  assumes "PromptContinueCall p \<in> set (fst (Run env args))"
  shows "\<exists>r pre. Parse env (args_instance args) = Inr r
      \<and> ValidateInstanceName env (args_instance args) = Inr ()
      \<and> (\<exists>tf res. fetch_instance env r = (tf, Inr res) \<and> choose_prompt res = Inr p)
      \<and> \<not> list_ex is_delete pre \<and> \<not> list_ex is_prompt pre
      \<and> Run env args =
          (case PromptContinue env p of
             Inl e \<Rightarrow> (pre @ [PromptContinueCall p], Inl e)
           | Inr c \<Rightarrow>
               if c then (pre @ PromptContinueCall p # fst (try_delete env args r),
                          snd (try_delete env args r))
               else (pre @ [PromptContinueCall p], Inr None))"
  using assms
  by (auto simp: Run_defs Let_def dest: try_delete_no_prompt
      split: sum.splits prod.splits if_splits option.splits)

subsection \<open>Confirmation before deletion\<close>

text \<open>
  Claim C1. In every run, a delete request in the trace comes after a confirmation
  prompt that was answered with yes, and no delete request comes before that prompt.
  When the prompt is answered with no, the trace holds no delete request and \<open>Run\<close>
  returns \<^verbatim>\<open>None\<close> without raising.
\<close>

theorem delete_only_after_accepted_prompt:
  "(\<forall>req. InstancesDeleteCall req \<in> set (fst (Run env args)) \<longrightarrow>
      (\<exists>pre p post. fst (Run env args) = pre @ PromptContinueCall p # post
          \<and> PromptContinue env p = Inr True
          \<and> \<not> list_ex is_delete pre \<and> InstancesDeleteCall req \<in> set post)) \<and>
   (\<forall>p. PromptContinueCall p \<in> set (fst (Run env args)) \<and>
        PromptContinue env p = Inr False \<longrightarrow>
      \<not> list_ex is_delete (fst (Run env args)) \<and> snd (Run env args) = Inr None)"
proof (intro conjI allI impI)
  fix req
  assume "InstancesDeleteCall req \<in> set (fst (Run env args))"
  from Run_reaches_delete [OF this]
  obtain r pre p where *: "req = delete_request args r" "PromptContinue env p = Inr True"
    "\<not> list_ex is_delete pre"
    "Run env args = (pre @ PromptContinueCall p # fst (try_delete env args r),
            snd (try_delete env args r))"
    by blast
  moreover have "InstancesDeleteCall req \<in> set (fst (try_delete env args r))"
    using try_delete_trace [of env args r] * by auto
  ultimately show "\<exists>pre p post. fst (Run env args) = pre @ PromptContinueCall p # post
          \<and> PromptContinue env p = Inr True
          \<and> \<not> list_ex is_delete pre \<and> InstancesDeleteCall req \<in> set post"
    by auto
next
  fix p
  assume a: "PromptContinueCall p \<in> set (fst (Run env args)) \<and>
    PromptContinue env p = Inr False"
  from Run_reaches_prompt [of p env args] a
  obtain pre where "\<not> list_ex is_delete pre"
    "Run env args = (pre @ [PromptContinueCall p], Inr None)"
    by auto
  then show "\<not> list_ex is_delete (fst (Run env args))" "snd (Run env args) = Inr None"
    by auto
qed

theorem delete_only_after_accepted_prompt_witness:
  "InstancesDeleteCall demo_request \<in> set (fst (Run demo_env demo_args)) \<and>
   (\<exists>pre p post. fst (Run demo_env demo_args) = pre @ PromptContinueCall p # post
      \<and> PromptContinue demo_env p = Inr True
      \<and> \<not> list_ex is_delete pre \<and> InstancesDeleteCall demo_request \<in> set post) \<and>
   PromptContinueCall prompt_retained \<in> set (fst (Run decline_env demo_args)) \<and>
   PromptContinue decline_env prompt_retained = Inr False \<and>
   \<not> list_ex is_delete (fst (Run decline_env demo_args)) \<and>
   snd (Run decline_env demo_args) = Inr None"
proof -
  have a: "InstancesDeleteCall demo_request \<in> set (fst (Run demo_env demo_args))"
    by (simp add: demo_run_sync)
  have b: "PromptContinueCall prompt_retained \<in> set (fst (Run decline_env demo_args)) \<and>
    PromptContinue decline_env prompt_retained = Inr False"
    by (simp add: decline_run) (simp add: decline_env_def)
  show ?thesis
    using a b delete_only_after_accepted_prompt [of demo_env demo_args]
      delete_only_after_accepted_prompt [of decline_env demo_args]
    by blast
qed

subsection \<open>Validation before any request\<close>

text \<open>
  Claim C2. Every trace starts with the call of the name validator. When the validator
  raises for the instance identifier, \<open>Run\<close> raises that exception and the trace holds
  nothing but the validator call: no request was sent. A trace that holds a request to
  the service belongs to a run whose validator returned. Which identifiers the validator
  rejects, and with which exception, is the validator's own matter: it is a collaborator
  here.
\<close>

theorem validation_precedes_every_request:
  "(\<exists>rest. fst (Run env args) = ValidateInstanceNameCall (args_instance args) # rest) \<and>
   (\<forall>e. ValidateInstanceName env (args_instance args) = Inl e \<longrightarrow>
      Run env args = ([ValidateInstanceNameCall (args_instance args)], Inl e)) \<and>
   (list_ex is_remote (fst (Run env args)) \<longrightarrow>
      ValidateInstanceName env (args_instance args) = Inr ())"
  by (auto simp: Run_def Let_def split: sum.splits prod.splits if_splits option.splits)

theorem validation_precedes_every_request_witness:
  "ValidateInstanceName bad_name_env (args_instance demo_args) = Inl (OtherError ''ArgumentError'') \<and>
   Run bad_name_env demo_args =
     ([ValidateInstanceNameCall (args_instance demo_args)], Inl (OtherError ''ArgumentError'')) \<and>
   list_ex is_remote (fst (Run demo_env demo_args)) \<and>
   ValidateInstanceName demo_env (args_instance demo_args) = Inr ()"
proof -
  have a: "ValidateInstanceName bad_name_env (args_instance demo_args) = Inl (OtherError ''ArgumentError'')"
    by (simp add: bad_name_env_def)
  have b: "list_ex is_remote (fst (Run demo_env demo_args))"
    by (simp add: demo_run_sync)
  show ?thesis
    using a b validation_precedes_every_request [of bad_name_env demo_args]
      validation_precedes_every_request [of demo_env demo_args]
    by blast
qed

subsection \<open>A failing fetch of the instance\<close>

text \<open>
  Claim C3, as stated, fails: a fetch that fails with an exception other than an
  \<open>HttpError\<close> ends the run before any prompt.
\<close>

theorem fetch_failure_not_always_swallowed:
  "instances_Get offline_env (SqlInstancesGetRequest ''p1'' ''db1'') = Inl (OtherError ''ConnectionError'') \<and>
   \<not> list_ex is_prompt (fst (Run offline_env demo_args)) \<and>
   \<not> list_ex is_delete (fst (Run offline_env demo_args)) \<and>
   snd (Run offline_env demo_args) = Inl (OtherError ''ConnectionError'')"
  by (simp add: offline_run) (simp add: offline_env_def)

text \<open>
  Claim C3, amended. When the fetch of the instance fails with an \<open>HttpError\<close>, the
  error is logged at debug level and dropped, the resource counts as absent, and the run
  goes on to the prompt with the "all data lost" wording; when that prompt is accepted
  the delete request is the next event, and when it is declined the run ends there.
\<close>

theorem http_fetch_failure_swallowed:
  assumes "ValidateInstanceName env (args_instance args) = Inr ()"
    and "Parse env (args_instance args) = Inr r"
    and "instances_Get env (SqlInstancesGetRequest (ref_project r) (ref_instance r)) = Inl (HttpError m)"
  shows "\<exists>rest. fst (Run env args) =
      [ValidateInstanceNameCall (args_instance args), ParseCall (args_instance args),
       InstancesGetCall (SqlInstancesGetRequest (ref_project r) (ref_instance r)),
       LogDebug ''Ignoring the error to get instance resource : %s'' m,
       PromptContinueCall prompt_default] @ rest \<and>
     (PromptContinue env prompt_default = Inr True \<longrightarrow>
        (\<exists>rest'. rest = InstancesDeleteCall (delete_request args r) # rest') \<and>
        snd (Run env args) = snd (try_delete env args r)) \<and>
     (PromptContinue env prompt_default = Inr False \<longrightarrow> rest = [] \<and> snd (Run env args) = Inr None)"
  using assms try_delete_trace [of env args r]
  by (auto simp: Run_defs Let_def split: sum.splits prod.splits if_splits option.splits)

theorem http_fetch_failure_swallowed_witness:
  "ValidateInstanceName forbidden_env (args_instance demo_args) = Inr () \<and>
   Parse forbidden_env (args_instance demo_args) = Inr \<lparr>ref_project = ''p1'', ref_instance = ''db1''\<rparr> \<and>
   instances_Get forbidden_env (SqlInstancesGetRequest ''p1'' ''db1'') = Inl (HttpError ''HttpError 403'') \<and>
   PromptContinue forbidden_env prompt_default = Inr True \<and>
   (\<exists>rest'. fst (Run forbidden_env demo_args) =
      [ValidateInstanceNameCall ''db1'', ParseCall ''db1'',
       InstancesGetCall (SqlInstancesGetRequest ''p1'' ''db1''),
       LogDebug ''Ignoring the error to get instance resource : %s'' ''HttpError 403'',
       PromptContinueCall prompt_default,
       InstancesDeleteCall (delete_request demo_args \<lparr>ref_project = ''p1'', ref_instance = ''db1''\<rparr>)] @ rest')"
proof -
  have a: "ValidateInstanceName forbidden_env (args_instance demo_args) = Inr ()"
    by (simp add: forbidden_env_def demo_env_def)
  have b: "Parse forbidden_env (args_instance demo_args) = Inr \<lparr>ref_project = ''p1'', ref_instance = ''db1''\<rparr>"
    by (simp add: forbidden_env_def demo_env_def demo_args_def)
  have c: "instances_Get forbidden_env (SqlInstancesGetRequest
      (ref_project \<lparr>ref_project = ''p1'', ref_instance = ''db1''\<rparr>)
      (ref_instance \<lparr>ref_project = ''p1'', ref_instance = ''db1''\<rparr>)) = Inl (HttpError ''HttpError 403'')"
    by (simp add: forbidden_env_def)
  have d: "PromptContinue forbidden_env prompt_default = Inr True"
    by (simp add: forbidden_env_def demo_env_def)
  from http_fetch_failure_swallowed [OF a b c] d a b c show ?thesis
    by (auto simp: demo_args_def)
qed

text \<open>
  Claim C10. Of the exceptions the fetch of the instance raises, the \<open>HttpError\<close>s
  are suppressed (the prompt is shown); every other exception leaves \<open>Run\<close> right
  after the fetch, before any prompt and before any delete request.
\<close>

theorem only_http_fetch_errors_suppressed:
  assumes "ValidateInstanceName env (args_instance args) = Inr ()"
    and "Parse env (args_instance args) = Inr r"
    and "instances_Get env (SqlInstancesGetRequest (ref_project r) (ref_instance r)) = Inl e"
  shows "(is_HttpError e \<longrightarrow>
          PromptContinueCall prompt_default \<in> set (fst (Run env args))) \<and>
         (\<not> is_HttpError e \<longrightarrow>
          Run env args =
            ([ValidateInstanceNameCall (args_instance args), ParseCall (args_instance args),
              InstancesGetCall (SqlInstancesGetRequest (ref_project r) (ref_instance r))], Inl e) \<and>
          \<not> list_ex is_prompt (fst (Run env args)) \<and>
          \<not> list_ex is_delete (fst (Run env args)))"
  using assms
  by (auto simp: Run_defs Let_def split: sum.splits prod.splits if_splits option.splits)

theorem only_http_fetch_errors_suppressed_witness:
  "instances_Get forbidden_env (SqlInstancesGetRequest ''p1'' ''db1'') = Inl (HttpError ''HttpError 403'') \<and>
   is_HttpError (HttpError ''HttpError 403'') \<and>
   PromptContinueCall prompt_default \<in> set (fst (Run forbidden_env demo_args)) \<and>
   instances_Get offline_env (SqlInstancesGetRequest ''p1'' ''db1'') = Inl (OtherError ''ConnectionError'') \<and>
   \<not> is_HttpError (OtherError ''ConnectionError'') \<and>
   Run offline_env demo_args =
     ([ValidateInstanceNameCall ''db1'', ParseCall ''db1'',
       InstancesGetCall (SqlInstancesGetRequest ''p1'' ''db1'')],
      Inl (OtherError ''ConnectionError'')) \<and>
   \<not> list_ex is_prompt (fst (Run offline_env demo_args)) \<and>
   \<not> list_ex is_delete (fst (Run offline_env demo_args))"
proof -
  let ?r = "\<lparr>ref_project = ''p1'', ref_instance = ''db1''\<rparr>"
  have a: "ValidateInstanceName forbidden_env (args_instance demo_args) = Inr ()"
    "ValidateInstanceName offline_env (args_instance demo_args) = Inr ()"
    by (simp_all add: forbidden_env_def offline_env_def demo_env_def)
  have b: "Parse forbidden_env (args_instance demo_args) = Inr ?r"
    "Parse offline_env (args_instance demo_args) = Inr ?r"
    by (simp_all add: forbidden_env_def offline_env_def demo_env_def demo_args_def)
  have c: "instances_Get forbidden_env (SqlInstancesGetRequest (ref_project ?r) (ref_instance ?r))
      = Inl (HttpError ''HttpError 403'')"
    by (simp add: forbidden_env_def)
  have d: "instances_Get offline_env (SqlInstancesGetRequest (ref_project ?r) (ref_instance ?r))
      = Inl (OtherError ''ConnectionError'')"
    by (simp add: offline_env_def)
  from only_http_fetch_errors_suppressed [OF a(1) b(1) c]
    only_http_fetch_errors_suppressed [OF a(2) b(2) d] c d
  show ?thesis by (simp add: demo_args_def)
qed

subsection \<open>The wording of the prompt\<close>




subsection \<open>The delete request\<close>

text \<open>
  Claim C5. In the delete request of a run, \<^verbatim>\<open>finalBackupTtlDays\<close> is absent when the
  retention flag is absent or at most zero, and is the value of the flag when that is
  positive.
\<close>

theorem final_backup_ttl_days:
  assumes "InstancesDeleteCall req \<in> set (fst (Run env args))"
  shows "(final_backup_retention_days args = None \<longrightarrow> finalBackupTtlDays req = None) \<and>
         (\<forall>n. final_backup_retention_days args = Some n \<and> n \<le> 0 \<longrightarrow>
              finalBackupTtlDays req = None) \<and>
         (\<forall>n. final_backup_retention_days args = Some n \<and> n > 0 \<longrightarrow>
              finalBackupTtlDays req = Some n)"
  using Run_reaches_delete [OF assms]
  by (auto simp: delete_request_def retention_days_def)

theorem final_backup_ttl_days_witness:
  "InstancesDeleteCall demo_request \<in> set (fst (Run demo_env demo_args)) \<and>
   final_backup_retention_days demo_args = None \<and>
   finalBackupTtlDays demo_request = None \<and>
   InstancesDeleteCall (demo_request\<lparr>finalBackupTtlDays := None\<rparr>)
     \<in> set (fst (Run demo_env (demo_args\<lparr>final_backup_retention_days := Some (- 3)\<rparr>))) \<and>
   finalBackupTtlDays (demo_request\<lparr>finalBackupTtlDays := None\<rparr>) = None \<and>
   InstancesDeleteCall (demo_request\<lparr>finalBackupTtlDays := Some 7\<rparr>)
     \<in> set (fst (Run demo_env (demo_args\<lparr>final_backup_retention_days := Some 7\<rparr>))) \<and>
   finalBackupTtlDays (demo_request\<lparr>finalBackupTtlDays := Some 7\<rparr>) = Some 7"
proof -
  have a: "InstancesDeleteCall demo_request \<in> set (fst (Run demo_env demo_args))"
    by (simp add: demo_run_sync)
  have b: "InstancesDeleteCall (demo_request\<lparr>finalBackupTtlDays := None\<rparr>)
     \<in> set (fst (Run demo_env (demo_args\<lparr>final_backup_retention_days := Some (- 3)\<rparr>)))"
    using retention_run [of "- 3"] by simp
  have c: "InstancesDeleteCall (demo_request\<lparr>finalBackupTtlDays := Some 7\<rparr>)
     \<in> set (fst (Run demo_env (demo_args\<lparr>final_backup_retention_days := Some 7\<rparr>)))"
    using retention_run [of 7] by simp
  from final_backup_ttl_days [OF a] final_backup_ttl_days [OF b] final_backup_ttl_days [OF c] a b c
  show ?thesis by (simp add: demo_args_def)
qed

subsection \<open>After the delete request\<close>

text \<open>
  Claim C7. With \<^verbatim>\<open>--async\<close>, once the delete request has returned an operation and the
  operation reference is built from its name, \<open>Run\<close> ends with the outcome of the one
  \<^verbatim>\<open>operations.Get\<close> call on that reference (its value is the value of \<open>Run\<close>), and
  the waiter is never called.
\<close>

theorem async_returns_operation_snapshot:
  assumes "async args"
    and "InstancesDeleteCall req \<in> set (fst (Run env args))"
    and "instances_Delete env req = Inr result"
    and "Create env (name result) (del_project req) = Inr oref"
  shows "snd (Run env args) =
           (case operations_Get env (SqlOperationsGetRequest (op_project oref) (op_operation oref)) of
              Inl e \<Rightarrow> Inl e
            | Inr snapshot \<Rightarrow> Inr (Some snapshot)) \<and>
         filter is_operations_get (fst (Run env args)) =
           [OperationsGetCall (SqlOperationsGetRequest (op_project oref) (op_operation oref))] \<and>
         \<not> list_ex is_wait (fst (Run env args))"
proof -
  from Run_reaches_delete [OF assms(2)]
  obtain r pre p where *: "req = delete_request args r"
    "\<not> list_ex is_operations_get pre" "\<not> list_ex is_wait pre"
    "Run env args = (pre @ PromptContinueCall p # fst (try_delete env args r),
            snd (try_delete env args r))"
    by blast
  have r: "del_project req = ref_project r"
    using * by (simp add: delete_request_def)
  show ?thesis
    using assms(1,3,4) * r
    by (auto simp: try_delete_def try_body_def Let_def filter_none split: sum.splits)
qed

theorem async_returns_operation_snapshot_witness:
  "async async_args \<and>
   InstancesDeleteCall demo_request \<in> set (fst (Run demo_env async_args)) \<and>
   instances_Delete demo_env demo_request = Inr \<lparr>name = ''op-1'', status = ''PENDING''\<rparr> \<and>
   Create demo_env ''op-1'' ''p1'' = Inr demo_operation_ref \<and>
   operations_Get demo_env (SqlOperationsGetRequest ''p1'' ''op-1'') =
     Inr \<lparr>name = ''op-1'', status = ''RUNNING''\<rparr> \<and>
   snd (Run demo_env async_args) = Inr (Some \<lparr>name = ''op-1'', status = ''RUNNING''\<rparr>) \<and>
   filter is_operations_get (fst (Run demo_env async_args)) =
     [OperationsGetCall (SqlOperationsGetRequest ''p1'' ''op-1'')] \<and>
   \<not> list_ex is_wait (fst (Run demo_env async_args))"
proof -
  have a: "async async_args"
    by (simp add: async_args_def)
  have b: "InstancesDeleteCall demo_request \<in> set (fst (Run demo_env async_args))"
    by (simp add: demo_run_async)
  have c: "instances_Delete demo_env demo_request = Inr \<lparr>name = ''op-1'', status = ''PENDING''\<rparr>"
    by (simp add: demo_env_def)
  have d: "Create demo_env (name \<lparr>name = ''op-1'', status = ''PENDING''\<rparr>)
      (del_project demo_request) = Inr demo_operation_ref"
    by (simp add: demo_env_def demo_request_def demo_operation_ref_def)
  have e: "operations_Get demo_env (SqlOperationsGetRequest ''p1'' ''op-1'') =
     Inr \<lparr>name = ''op-1'', status = ''RUNNING''\<rparr>"
    by (simp add: demo_env_def)
  from async_returns_operation_snapshot [OF a b c d] a b c d e
  show ?thesis by (simp add: demo_operation_ref_def demo_request_def)
qed

text \<open>
  Claim C8. Without \<^verbatim>\<open>--async\<close>, once the delete request has returned an operation and
  the operation reference is built, the run calls the waiter once, on that reference and
  with the message "Deleting Cloud SQL instance", and never calls \<^verbatim>\<open>operations.Get\<close>.
  When the waiter returns, the next and last event is the deletion log for the parsed
  instance reference and \<open>Run\<close> returns \<^verbatim>\<open>None\<close>; when the waiter raises, no deletion
  is logged and the exception leaves \<open>Run\<close>.
\<close>

theorem sync_waits_then_logs_deleted:
  assumes "\<not> async args"
    and "InstancesDeleteCall req \<in> set (fst (Run env args))"
    and "Parse env (args_instance args) = Inr r"
    and "instances_Delete env req = Inr result"
    and "Create env (name result) (del_project req) = Inr oref"
  shows "filter is_wait (fst (Run env args)) = [WaitForOperationCall oref ''Deleting Cloud SQL instance''] \<and>
         \<not> list_ex is_operations_get (fst (Run env args)) \<and>
         (WaitForOperation env oref ''Deleting Cloud SQL instance'' = Inr () \<longrightarrow>
            (\<exists>pre. fst (Run env args) =
               pre @ [WaitForOperationCall oref ''Deleting Cloud SQL instance'', LogDeletedResource r]) \<and>
            snd (Run env args) = Inr None) \<and>
         (\<forall>e. WaitForOperation env oref ''Deleting Cloud SQL instance'' = Inl e \<longrightarrow>
            LogDeletedResource r \<notin> set (fst (Run env args)) \<and>
            (\<exists>pre. fst (Run env args) = pre @ [WaitForOperationCall oref ''Deleting Cloud SQL instance''] \<or>
               fst (Run env args) = pre @ [WaitForOperationCall oref ''Deleting Cloud SQL instance'',
                 LogDebug ''operation : %s'' (text_type_ref env oref)]) \<and>
            snd (Run env args) = Inl e)"
proof -
  from Run_reaches_delete [OF assms(2)] assms(3)
  obtain pre p where *: "req = delete_request args r"
    "\<not> list_ex is_operations_get pre" "\<not> list_ex is_wait pre"
    "\<forall>i. LogDeletedResource i \<notin> set pre"
    "Run env args = (pre @ PromptContinueCall p # fst (try_delete env args r),
            snd (try_delete env args r))"
    by auto
  have r: "del_project req = ref_project r"
    using * by (simp add: delete_request_def)
  have t: "try_body env args r =
    (case WaitForOperation env oref ''Deleting Cloud SQL instance'' of
       Inl e \<Rightarrow> ([InstancesDeleteCall req, CreateCall (name result) (ref_project r),
                  WaitForOperationCall oref ''Deleting Cloud SQL instance''], Some oref, Inl e)
     | Inr u \<Rightarrow> ([InstancesDeleteCall req, CreateCall (name result) (ref_project r),
                  WaitForOperationCall oref ''Deleting Cloud SQL instance'', LogDeletedResource r],
                 Some oref, Inr None))"
    using assms(1,4,5) * r
    by (auto simp: try_body_def Let_def split: sum.splits)
  show ?thesis
  proof (cases "WaitForOperation env oref ''Deleting Cloud SQL instance''")
    case (Inl e)
    then show ?thesis
      using * t
      by (cases "is_HttpError e")
        (auto simp: try_delete_def text_type_operation_ref_def filter_none)
  next
    case (Inr u)
    then show ?thesis
      using * t
      by (auto simp: try_delete_def filter_none)
  qed
qed

theorem sync_waits_then_logs_deleted_witness:
  "\<not> async demo_args \<and>
   InstancesDeleteCall demo_request \<in> set (fst (Run demo_env demo_args)) \<and>
   Parse demo_env (args_instance demo_args) = Inr \<lparr>ref_project = ''p1'', ref_instance = ''db1''\<rparr> \<and>
   instances_Delete demo_env demo_request = Inr \<lparr>name = ''op-1'', status = ''PENDING''\<rparr> \<and>
   Create demo_env ''op-1'' ''p1'' = Inr demo_operation_ref \<and>
   WaitForOperation demo_env demo_operation_ref ''Deleting Cloud SQL instance'' = Inr () \<and>
   filter is_wait (fst (Run demo_env demo_args)) =
     [WaitForOperationCall demo_operation_ref ''Deleting Cloud SQL instance''] \<and>
   (\<exists>pre. fst (Run demo_env demo_args) =
      pre @ [WaitForOperationCall demo_operation_ref ''Deleting Cloud SQL instance'',
             LogDeletedResource \<lparr>ref_project = ''p1'', ref_instance = ''db1''\<rparr>]) \<and>
   snd (Run demo_env demo_args) = Inr None \<and>
   InstancesDeleteCall demo_request \<in> set (fst (Run poll_fails_env demo_args)) \<and>
   WaitForOperation poll_fails_env demo_operation_ref ''Deleting Cloud SQL instance'' =
     Inl (HttpError ''HttpError 500'') \<and>
   LogDeletedResource \<lparr>ref_project = ''p1'', ref_instance = ''db1''\<rparr>
     \<notin> set (fst (Run poll_fails_env demo_args)) \<and>
   snd (Run poll_fails_env demo_args) = Inl (HttpError ''HttpError 500'')"
proof -
  let ?r = "\<lparr>ref_project = ''p1'', ref_instance = ''db1''\<rparr>"
  let ?o = "\<lparr>name = ''op-1'', status = ''PENDING''\<rparr>"
  have a: "\<not> async demo_args"
    by (simp add: demo_args_def)
  have b: "InstancesDeleteCall demo_request \<in> set (fst (Run demo_env demo_args))"
    "InstancesDeleteCall demo_request \<in> set (fst (Run poll_fails_env demo_args))"
    by (simp_all add: demo_run_sync poll_fails_run_sync)
  have c: "Parse demo_env (args_instance demo_args) = Inr ?r"
    "Parse poll_fails_env (args_instance demo_args) = Inr ?r"
    by (simp_all add: poll_fails_env_def demo_env_def demo_args_def)
  have d: "instances_Delete demo_env demo_request = Inr ?o"
    "instances_Delete poll_fails_env demo_request = Inr ?o"
    by (simp_all add: poll_fails_env_def demo_env_def)
  have e: "Create demo_env (name ?o) (del_project demo_request) = Inr demo_operation_ref"
    "Create poll_fails_env (name ?o) (del_project demo_request) = Inr demo_operation_ref"
    by (simp_all add: poll_fails_env_def demo_env_def demo_request_def demo_operation_ref_def)
  have f: "WaitForOperation demo_env demo_operation_ref ''Deleting Cloud SQL instance'' = Inr ()"
    "WaitForOperation poll_fails_env demo_operation_ref ''Deleting Cloud SQL instance'' =
       Inl (HttpError ''HttpError 500'')"
    by (simp_all add: poll_fails_env_def demo_env_def)
  from sync_waits_then_logs_deleted [OF a b(1) c(1) d(1) e(1)]
    sync_waits_then_logs_deleted [OF a b(2) c(2) d(2) e(2)] a b c d e f
  show ?thesis by (simp add: demo_request_def)
qed

text \<open>
  Claim C9. In a run that reaches the delete request, that request is issued once. When
  the delete request, the construction of the operation reference, \<^verbatim>\<open>operations.Get\<close> or
  the waiter raises an \<open>HttpError\<close>, the failed call is the last call of the run, the
  last event is the debug log of \<^verbatim>\<open>operation_ref\<close> (the text \<^verbatim>\<open>None\<close> while the reference
  is not yet built), and the same \<open>HttpError\<close> leaves \<open>Run\<close>.
\<close>

theorem http_error_after_prompt_logged_and_raised_again:
  assumes "InstancesDeleteCall req \<in> set (fst (Run env args))"
  shows "filter is_delete (fst (Run env args)) = [InstancesDeleteCall req] \<and>
    (\<forall>m. instances_Delete env req = Inl (HttpError m) \<longrightarrow>
       snd (Run env args) = Inl (HttpError m) \<and>
       (\<exists>pre. fst (Run env args) =
          pre @ [InstancesDeleteCall req, LogDebug ''operation : %s'' ''None''])) \<and>
    (\<forall>result m. instances_Delete env req = Inr result \<and>
         Create env (name result) (del_project req) = Inl (HttpError m) \<longrightarrow>
       snd (Run env args) = Inl (HttpError m) \<and>
       (\<exists>pre. fst (Run env args) =
          pre @ [CreateCall (name result) (del_project req),
                 LogDebug ''operation : %s'' ''None''])) \<and>
    (\<forall>result oref m. instances_Delete env req = Inr result \<and>
         Create env (name result) (del_project req) = Inr oref \<and> async args \<and>
         operations_Get env (SqlOperationsGetRequest (op_project oref) (op_operation oref)) =
           Inl (HttpError m) \<longrightarrow>
       snd (Run env args) = Inl (HttpError m) \<and>
       (\<exists>pre. fst (Run env args) =
          pre @ [OperationsGetCall (SqlOperationsGetRequest (op_project oref) (op_operation oref)),
                 LogDebug ''operation : %s'' (text_type_ref env oref)])) \<and>
    (\<forall>result oref m. instances_Delete env req = Inr result \<and>
         Create env (name result) (del_project req) = Inr oref \<and> \<not> async args \<and>
         WaitForOperation env oref ''Deleting Cloud SQL instance'' = Inl (HttpError m) \<longrightarrow>
       snd (Run env args) = Inl (HttpError m) \<and>
       (\<exists>pre. fst (Run env args) =
          pre @ [WaitForOperationCall oref ''Deleting Cloud SQL instance'',
                 LogDebug ''operation : %s'' (text_type_ref env oref)]))"
proof -
  from Run_reaches_delete [OF assms]
  obtain r pre p where *: "req = delete_request args r"
    "\<not> list_ex is_delete pre"
    "Run env args = (pre @ PromptContinueCall p # fst (try_delete env args r),
            snd (try_delete env args r))"
    by blast
  have r: "del_project req = ref_project r"
    using * by (simp add: delete_request_def)
  have one: "filter is_delete (fst (Run env args)) = [InstancesDeleteCall req]"
    using * try_delete_trace [of env args r] by (auto simp: filter_none)
  have del: "snd (Run env args) = Inl (HttpError m) \<and>
       (\<exists>pre. fst (Run env args) =
          pre @ [InstancesDeleteCall req, LogDebug ''operation : %s'' ''None''])"
    if "instances_Delete env req = Inl (HttpError m)" for m
    using that * by (simp add: try_delete_def try_body_def text_type_operation_ref_def)
  have cre: "snd (Run env args) = Inl (HttpError m) \<and>
       (\<exists>pre. fst (Run env args) =
          pre @ [CreateCall (name result) (del_project req),
                 LogDebug ''operation : %s'' ''None''])"
    if "instances_Delete env req = Inr result"
      "Create env (name result) (del_project req) = Inl (HttpError m)" for result m
    using that * r by (simp add: try_delete_def try_body_def text_type_operation_ref_def)
  have get: "snd (Run env args) = Inl (HttpError m) \<and>
       (\<exists>pre. fst (Run env args) =
          pre @ [OperationsGetCall (SqlOperationsGetRequest (op_project oref) (op_operation oref)),
                 LogDebug ''operation : %s'' (text_type_ref env oref)])"
    if "instances_Delete env req = Inr result"
      "Create env (name result) (del_project req) = Inr oref" "async args"
      "operations_Get env (SqlOperationsGetRequest (op_project oref) (op_operation oref)) =
           Inl (HttpError m)" for result oref m
    using that * r by (simp add: try_delete_def try_body_def text_type_operation_ref_def)
  have wait: "snd (Run env args) = Inl (HttpError m) \<and>
       (\<exists>pre. fst (Run env args) =
          pre @ [WaitForOperationCall oref ''Deleting Cloud SQL instance'',
                 LogDebug ''operation : %s'' (text_type_ref env oref)])"
    if "instances_Delete env req = Inr result"
      "Create env (name result) (del_project req) = Inr oref" "\<not> async args"
      "WaitForOperation env oref ''Deleting Cloud SQL instance'' = Inl (HttpError m)"
    for result oref m
    using that * r by (simp add: try_delete_def try_body_def text_type_operation_ref_def)
  show ?thesis
    using one del cre get wait by blast
qed

theorem http_error_after_prompt_logged_and_raised_again_witness:
  "InstancesDeleteCall demo_request \<in> set (fst (Run delete_fails_env demo_args)) \<and>
   instances_Delete delete_fails_env demo_request = Inl (HttpError ''HttpError 409'') \<and>
   filter is_delete (fst (Run delete_fails_env demo_args)) = [InstancesDeleteCall demo_request] \<and>
   snd (Run delete_fails_env demo_args) = Inl (HttpError ''HttpError 409'') \<and>
   (\<exists>pre. fst (Run delete_fails_env demo_args) =
      pre @ [InstancesDeleteCall demo_request, LogDebug ''operation : %s'' ''None'']) \<and>
   InstancesDeleteCall demo_request \<in> set (fst (Run create_fails_env demo_args)) \<and>
   Create create_fails_env ''op-1'' ''p1'' = Inl (HttpError ''HttpError 400'') \<and>
   snd (Run create_fails_env demo_args) = Inl (HttpError ''HttpError 400'') \<and>
   (\<exists>pre. fst (Run create_fails_env demo_args) =
      pre @ [CreateCall ''op-1'' ''p1'', LogDebug ''operation : %s'' ''None'']) \<and>
   InstancesDeleteCall demo_request \<in> set (fst (Run poll_fails_env async_args)) \<and>
   async async_args \<and>
   operations_Get poll_fails_env (SqlOperationsGetRequest ''p1'' ''op-1'') =
     Inl (HttpError ''HttpError 503'') \<and>
   snd (Run poll_fails_env async_args) = Inl (HttpError ''HttpError 503'') \<and>
   (\<exists>pre. fst (Run poll_fails_env async_args) =
      pre @ [OperationsGetCall (SqlOperationsGetRequest ''p1'' ''op-1''),
             LogDebug ''operation : %s'' (text_type_ref poll_fails_env demo_operation_ref)]) \<and>
   InstancesDeleteCall demo_request \<in> set (fst (Run poll_fails_env demo_args)) \<and>
   \<not> async demo_args \<and>
   WaitForOperation poll_fails_env demo_operation_ref ''Deleting Cloud SQL instance'' =
     Inl (HttpError ''HttpError 500'') \<and>
   snd (Run poll_fails_env demo_args) = Inl (HttpError ''HttpError 500'') \<and>
   (\<exists>pre. fst (Run poll_fails_env demo_args) =
      pre @ [WaitForOperationCall demo_operation_ref ''Deleting Cloud SQL instance'',
             LogDebug ''operation : %s'' (text_type_ref poll_fails_env demo_operation_ref)])"
proof -
  let ?o = "\<lparr>name = ''op-1'', status = ''PENDING''\<rparr>"
  have a: "InstancesDeleteCall demo_request \<in> set (fst (Run delete_fails_env demo_args))"
    "InstancesDeleteCall demo_request \<in> set (fst (Run create_fails_env demo_args))"
    "InstancesDeleteCall demo_request \<in> set (fst (Run poll_fails_env async_args))"
    "InstancesDeleteCall demo_request \<in> set (fst (Run poll_fails_env demo_args))"
    by (simp_all add: delete_fails_run create_fails_run poll_fails_run_async poll_fails_run_sync)
  have b: "instances_Delete delete_fails_env demo_request = Inl (HttpError ''HttpError 409'')"
    by (simp add: delete_fails_env_def)
  have c: "instances_Delete create_fails_env demo_request = Inr ?o"
    "Create create_fails_env (name ?o) (del_project demo_request) = Inl (HttpError ''HttpError 400'')"
    by (simp_all add: create_fails_env_def demo_env_def)
  have d: "instances_Delete poll_fails_env demo_request = Inr ?o"
    "Create poll_fails_env (name ?o) (del_project demo_request) = Inr demo_operation_ref"
    by (simp_all add: poll_fails_env_def demo_env_def demo_request_def demo_operation_ref_def)
  have e: "async async_args" "\<not> async demo_args"
    by (simp_all add: async_args_def demo_args_def)
  have f: "operations_Get poll_fails_env
      (SqlOperationsGetRequest (op_project demo_operation_ref) (op_operation demo_operation_ref)) =
      Inl (HttpError ''HttpError 503'')"
    "WaitForOperation poll_fails_env demo_operation_ref ''Deleting Cloud SQL instance'' =
      Inl (HttpError ''HttpError 500'')"
    by (simp_all add: poll_fails_env_def)
  note t = http_error_after_prompt_logged_and_raised_again
  have 1: "filter is_delete (fst (Run delete_fails_env demo_args)) = [InstancesDeleteCall demo_request] \<and>
   snd (Run delete_fails_env demo_args) = Inl (HttpError ''HttpError 409'') \<and>
   (\<exists>pre. fst (Run delete_fails_env demo_args) =
      pre @ [InstancesDeleteCall demo_request, LogDebug ''operation : %s'' ''None''])"
    using t [OF a(1)] b by blast
  have 2: "snd (Run create_fails_env demo_args) = Inl (HttpError ''HttpError 400'') \<and>
   (\<exists>pre. fst (Run create_fails_env demo_args) =
      pre @ [CreateCall (name ?o) (del_project demo_request), LogDebug ''operation : %s'' ''None''])"
    using t [OF a(2)] c by blast
  have 3: "snd (Run poll_fails_env async_args) = Inl (HttpError ''HttpError 503'') \<and>
   (\<exists>pre. fst (Run poll_fails_env async_args) =
      pre @ [OperationsGetCall (SqlOperationsGetRequest (op_project demo_operation_ref)
               (op_operation demo_operation_ref)),
             LogDebug ''operation : %s'' (text_type_ref poll_fails_env demo_operation_ref)])"
    using t [OF a(3)] d e(1) f(1) by blast
  have 4: "snd (Run poll_fails_env demo_args) = Inl (HttpError ''HttpError 500'') \<and>
   (\<exists>pre. fst (Run poll_fails_env demo_args) =
      pre @ [WaitForOperationCall demo_operation_ref ''Deleting Cloud SQL instance'',
             LogDebug ''operation : %s'' (text_type_ref poll_fails_env demo_operation_ref)])"
    using t [OF a(4)] d e(2) f(2) by blast
  from 1 2 3 4 a b c d e f show ?thesis
    by (simp add: demo_request_def demo_operation_ref_def)
qed

subsection \<open>The expiry time of the final backup\<close>

text \<open>
  The expiry time of a delete request is absent when the flag is absent, and is the
  \<^verbatim>\<open>strftime\<close> of the flag's datetime otherwise.
\<close>

lemma expiry_time_of_request:
  assumes "InstancesDeleteCall req \<in> set (fst (Run env args))"
  shows "finalBackupExpiryTime req =
    (case final_backup_expiry_time args of
       None \<Rightarrow> None
     | Some t \<Rightarrow> Some (strftime t ''%Y-%m-%dT%H:%M:%S.%fZ''))"
  using Run_reaches_delete [OF assms]
  by (auto simp: delete_request_def expiry_time_def simp del: strftime.simps)

text \<open>
  Claim C6, evaluated where it fails. The expiry time is midnight of 1 January 2025 on a
  clock five hours ahead of UTC. The request carries \<open>2025-01-01T00:00:00.000000Z\<close>:
  the wall-clock reading with the UTC designator appended, the same string as for
  midnight UTC, and not the UTC reading \<open>2024-12-31T19:00:00.000000Z\<close> of that instant.
\<close>

theorem expiry_time_keeps_wall_clock_of_offset_datetime:
  "valid_datetime new_year_plus5 \<and>
   utcoffset new_year_plus5 = Some (5 * 3600 * 1000000) \<and>
   utcoffset new_year_utc = Some 0 \<and>
   filter is_delete (fst (Run demo_env (expiry_args new_year_plus5))) =
     [InstancesDeleteCall
        (demo_request\<lparr>finalBackupExpiryTime := Some ''2025-01-01T00:00:00.000000Z''\<rparr>)] \<and>
   filter is_delete (fst (Run demo_env (expiry_args new_year_utc))) =
     [InstancesDeleteCall
        (demo_request\<lparr>finalBackupExpiryTime := Some ''2025-01-01T00:00:00.000000Z''\<rparr>)]"
  by (simp add: expiry_run strftime_new_year new_year_utc_def strftime_ignores_offset
      del: strftime.simps)
    (simp add: new_year_plus5_def valid_datetime_def)

end
